theory Spec2Isabelle
  imports Complex_Main "HOL-Library.Word" "HOL-Library.Log_Nat"
begin

section \<open>Type traits of feature\_util.h\<close>

text \<open>
  The header dispatches on the static type of the values a caller hands in.  The C++
  types that matter to the dispatch are listed here: the fundamental arithmetic types,
  the string classes the header names, pointers, arrays and a top-level const.  Any
  other class is \<open>T_class\<close> with its name.
\<close>

datatype CType =
    T_bool | T_char | T_signed_char | T_unsigned_char
  | T_wchar_t | T_char8_t | T_char16_t | T_char32_t
  | T_short | T_unsigned_short | T_int | T_unsigned_int
  | T_long | T_unsigned_long | T_long_long | T_unsigned_long_long
  | T_float | T_double | T_long_double
  | T_void
  | T_std_string | T_StringPiece | T_tstring
  | T_class string
  | T_pointer CType
  | T_array CType nat
  | T_const CType

text \<open>
  The template argument \<open>FeatureType\<close> of the accessors: one of the three element
  types a Feature stores (\<open>protobuf_int64\<close>, \<open>float\<close>, \<open>std::string\<close>).
\<close>

datatype FeatureType = protobuf_int64 | float | std_string

text \<open>\<open>std::remove_cv\<close>, for the one qualifier modelled.\<close>

fun remove_cv :: "CType \<Rightarrow> CType" where
  "remove_cv (T_const t) = remove_cv t"
| "remove_cv t = t"

text \<open>
  \<open>std::decay\<close>: an array becomes a pointer to its element, anything else loses its
  top-level qualifier.
\<close>

fun decay :: "CType \<Rightarrow> CType" where
  "decay (T_array t n) = T_pointer t"
| "decay (T_const (T_array t n)) = T_pointer (T_const t)"
| "decay t = remove_cv t"

text \<open>\<open>std::is_integral\<close> and \<open>std::is_floating_point\<close>, which look through cv.\<close>

definition is_integral :: "CType \<Rightarrow> bool" where
  "is_integral t \<longleftrightarrow>
     remove_cv t \<in> set [T_bool, T_char, T_signed_char, T_unsigned_char,
       T_wchar_t, T_char8_t, T_char16_t, T_char32_t,
       T_short, T_unsigned_short, T_int, T_unsigned_int,
       T_long, T_unsigned_long, T_long_long, T_unsigned_long_long]"

definition is_floating_point :: "CType \<Rightarrow> bool" where
  "is_floating_point t \<longleftrightarrow> remove_cv t \<in> set [T_float, T_double, T_long_double]"

text \<open>
  \<open>internal::is_string\<close>: the primary template compares the decayed type with
  \<open>char*\<close> and \<open>const char*\<close>; the three full specialisations add
  \<open>std::string\<close>, \<open>StringPiece\<close> and \<open>tstring\<close>, each for exactly that type.
\<close>

fun is_string :: "CType \<Rightarrow> bool" where
  "is_string T_std_string = True"
| "is_string T_StringPiece = True"
| "is_string T_tstring = True"
| "is_string t =
     (decay t = T_pointer T_char \<or> decay t = T_pointer (T_const T_char))"

text \<open>
  \<open>internal::FeatureTrait<ValueType>\<close> has three partial specialisations, each
  enabled by \<open>std::enable_if\<close>.  The type is defined when exactly one of them is
  enabled; with none the trait is incomplete and with two the instantiation is
  ambiguous, and the program does not compile in either case (\<open>None\<close>).
\<close>

definition enabled_specializations :: "CType \<Rightarrow> FeatureType list" where
  "enabled_specializations t =
     (if is_integral t then [protobuf_int64] else []) @
     (if is_floating_point t then [float] else []) @
     (if is_string t then [std_string] else [])"

definition FeatureTrait :: "CType \<Rightarrow> FeatureType option" where
  "FeatureTrait t =
     (case enabled_specializations t of [ty] \<Rightarrow> Some ty | _ \<Rightarrow> None)"

text \<open>The value types the documentation calls string-like.\<close>

definition string_like :: "CType \<Rightarrow> bool" where
  "string_like t \<longleftrightarrow>
     t = T_std_string \<or> t = T_StringPiece \<or> t = T_tstring \<or>
     t = T_pointer T_char \<or> t = T_pointer (T_const T_char) \<or>
     (\<exists>n. t = T_array T_char n) \<or> (\<exists>n. t = T_array (T_const T_char) n)"

section \<open>Single-precision floats\<close>

text \<open>
  The elements of a \<open>RepeatedField<float>\<close> are IEEE 754 binary32 values: a finite
  one is \<open>m * 2 ^ e\<close> with \<open>\<bar>m\<bar> < 2 ^ 24\<close> and \<open>- 149 \<le> e \<le> 104\<close>.  A finite
  float is given by its value, so the two zeros are one value here; a NaN is not
  modelled.
\<close>

datatype float32 = Float32 real | PlusInfinity | MinusInfinity

text \<open>Rounding to the nearest integer, a tie going to the even one.\<close>

definition round_half_even :: "real \<Rightarrow> int" where
  "round_half_even r =
     (if r - of_int \<lfloor>r\<rfloor> < 1 / 2 then \<lfloor>r\<rfloor>
      else if 1 / 2 < r - of_int \<lfloor>r\<rfloor> then \<lfloor>r\<rfloor> + 1
      else if even \<lfloor>r\<rfloor> then \<lfloor>r\<rfloor> else \<lfloor>r\<rfloor> + 1)"

text \<open>
  Magnitudes are scaled by \<open>2 ^ 149\<close>, so that the smallest positive float is 1.  The
  floats next to a scaled magnitude \<open>s\<close> are \<open>2 ^ quantum s\<close> apart: the spacing is 1
  below \<open>2 ^ 24\<close> and doubles with every further bit of \<open>s\<close>.
\<close>

definition quantum :: "real \<Rightarrow> nat" where
  "quantum s = nat (bitlen \<lfloor>s\<rfloor> - 24)"

text \<open>
  The conversion of a floating-point value to \<open>float\<close> that an assignment into the
  repeated field performs, for a finite source value: a value that is a float is
  kept, any other is rounded to the nearest float (a tie to the one with an even
  significand), and a value that rounds to \<open>2 ^ 128\<close> or beyond becomes an infinity,
  as IEEE 754 arithmetic does in its default rounding mode.
\<close>

definition float_of_real :: "real \<Rightarrow> float32" where
  "float_of_real x =
     (let s = \<bar>x\<bar> * 2 ^ 149;
          k = quantum s;
          m = round_half_even (s / 2 ^ k)
      in if 2 ^ 277 \<le> of_int m * (2 :: real) ^ k
         then (if x < 0 then MinusInfinity else PlusInfinity)
         else Float32 (sgn x * (of_int m * 2 ^ k) / 2 ^ 149))"

text \<open>The reals that are finite floats: whole multiples of the spacing, below \<open>2 ^ 128\<close>.\<close>

definition is_float32 :: "real \<Rightarrow> bool" where
  "is_float32 x =
     (let s = \<bar>x\<bar> * 2 ^ 149
      in s < 2 ^ 277 \<and> of_int \<lfloor>s / 2 ^ quantum s\<rfloor> = s / 2 ^ quantum s)"

text \<open>The value of a float, which an infinity does not have.\<close>

fun real_of_float32 :: "float32 \<Rightarrow> real option" where
  "real_of_float32 (Float32 x) = Some x"
| "real_of_float32 PlusInfinity = None"
| "real_of_float32 MinusInfinity = None"

section \<open>Feature, Features, Example and SequenceExample\<close>

text \<open>
  Modelled from the spec: the record types themselves.  The header includes
  \<open>feature.pb.h\<close> and \<open>example.pb.h\<close> for them and only uses their accessors.
  A Feature holds at most one of three repeated value lists (64-bit integers, floats,
  byte strings) with a discriminant that says which one; Features is a map from string
  keys to Feature, an Example wraps one Features, a FeatureList is an ordered sequence
  of Feature, and a SequenceExample has a context Features and a map from keys to
  FeatureList.

  The three lists are separate fields, so that the agreement of the discriminant with
  the populated list is a property to be proved of each operation and not one the type
  grants.
\<close>

datatype KindCase = KIND_NOT_SET | kBytesList | kFloatList | kInt64List

record Feature =
  kind_case :: KindCase
  bytes_list :: "string list"
  float_list :: "float32 list"
  int64_list :: "64 word list"

type_synonym Features = "string \<rightharpoonup> Feature"

record Example =
  features :: "Features"

record SequenceExample =
  "context" :: "Features"
  feature_lists :: "string \<rightharpoonup> Feature list"

text \<open>The template argument \<open>ProtoType\<close>: \<open>TypeHasFeatures\<close> admits these two.\<close>

datatype ProtoType = Features_proto "Features" | Example_proto "Example"

text \<open>Modelled from the spec: a Feature as first created, with no kind set.\<close>

definition Feature_default :: "Feature" where
  "Feature_default =
     \<lparr>kind_case = KIND_NOT_SET, bytes_list = [], float_list = [], int64_list = []\<rparr>"

text \<open>
  The oneof invariant: a list that holds values is the one the discriminant names.
\<close>

definition oneof_invariant :: "Feature \<Rightarrow> bool" where
  "oneof_invariant feature \<longleftrightarrow>
     (bytes_list feature = [] \<or> kind_case feature = kBytesList) \<and>
     (float_list feature = [] \<or> kind_case feature = kFloatList) \<and>
     (int64_list feature = [] \<or> kind_case feature = kInt64List)"

text \<open>The number of kind-specific lists that hold values.\<close>

definition populated_lists :: "Feature \<Rightarrow> nat" where
  "populated_lists feature =
     (if bytes_list feature = [] then 0 else 1) +
     (if float_list feature = [] then 0 else 1) +
     (if int64_list feature = [] then 0 else 1)"

text \<open>
  \<open>RepeatedFieldTrait<FeatureType>::Type\<close>, the typed storage an accessor hands out:
  a \<open>RepeatedField\<close> of integers or of floats, or a \<open>RepeatedPtrField\<close> of strings.
\<close>

datatype RepeatedFieldTrait =
    RepeatedField_int64 "64 word list"
  | RepeatedField_float "float32 list"
  | RepeatedPtrField_string "string list"

datatype error = LookupError | ForeignKindAccess

fun KindCase_of :: "FeatureType \<Rightarrow> KindCase" where
  "KindCase_of protobuf_int64 = kInt64List"
| "KindCase_of float = kFloatList"
| "KindCase_of std_string = kBytesList"

fun storage :: "FeatureType \<Rightarrow> Feature \<Rightarrow> RepeatedFieldTrait" where
  "storage protobuf_int64 feature = RepeatedField_int64 (int64_list feature)"
| "storage float feature = RepeatedField_float (float_list feature)"
| "storage std_string feature = RepeatedPtrField_string (bytes_list feature)"

section \<open>Typed views of a Feature\<close>

text \<open>
  Modelled from the spec: \<open>GetFeatureValues<FeatureType>(const Feature&)\<close>, which the
  header declares and does not define.  It is a direct view of the storage of the
  requested kind when the discriminant names that kind, and of a Feature with no kind
  set.  For a Feature whose discriminant names another kind the spec admits two
  policies, the error ForeignKindAccess or an empty view; which one holds is the
  parameter \<open>policy\<close>.
\<close>

datatype ForeignPolicy = FailOnForeignKind | EmptyOnForeignKind

definition GetFeatureValues ::
  "ForeignPolicy \<Rightarrow> FeatureType \<Rightarrow> Feature \<Rightarrow> error + RepeatedFieldTrait" where
  "GetFeatureValues policy K feature =
     (if kind_case feature = KindCase_of K \<or> kind_case feature = KIND_NOT_SET
      then Inr (storage K feature)
      else case policy of
             FailOnForeignKind \<Rightarrow> Inl ForeignKindAccess
           | EmptyOnForeignKind \<Rightarrow> Inr (storage K Feature_default))"

text \<open>
  Modelled from the spec: \<open>GetFeatureValues<FeatureType>(Feature*)\<close>, declared and not
  defined in the header.  When the discriminant is unset or names another kind, the
  Feature is switched to the requested kind with empty storage, and what the old kind
  held is discarded.  The function below is that effect on the Feature; the pointer
  it returns is to the storage of kind \<open>K\<close> of the result.
\<close>

definition GetFeatureValues_mutable :: "FeatureType \<Rightarrow> Feature \<Rightarrow> Feature" where
  "GetFeatureValues_mutable K feature =
     (if kind_case feature = KindCase_of K then feature
      else \<lparr>kind_case = KindCase_of K, bytes_list = [], float_list = [], int64_list = []\<rparr>)"

text \<open>
  \<open>Add\<close> on the repeated field behind that pointer puts one element at the back.
  \<open>Reserve\<close> changes the capacity only, which the model does not hold.
\<close>

definition Add_int64 :: "64 word \<Rightarrow> Feature \<Rightarrow> Feature" where
  "Add_int64 v feature = feature\<lparr>int64_list := int64_list feature @ [v]\<rparr>"

definition Add_float :: "float32 \<Rightarrow> Feature \<Rightarrow> Feature" where
  "Add_float v feature = feature\<lparr>float_list := float_list feature @ [v]\<rparr>"

definition Add_string :: "string \<Rightarrow> Feature \<Rightarrow> Feature" where
  "Add_string v feature = feature\<lparr>bytes_list := bytes_list feature @ [v]\<rparr>"

definition Reserve :: "nat \<Rightarrow> Feature \<Rightarrow> Feature" where
  "Reserve n feature = feature"

text \<open>
  Modelled from the spec: \<open>ClearFeatureValues<FeatureType>(Feature*)\<close>, declared and
  not defined in the header.  It empties the storage of the given kind and nothing
  else.
\<close>

fun ClearFeatureValues :: "FeatureType \<Rightarrow> Feature \<Rightarrow> Feature" where
  "ClearFeatureValues protobuf_int64 feature = feature\<lparr>int64_list := []\<rparr>"
| "ClearFeatureValues float feature = feature\<lparr>float_list := []\<rparr>"
| "ClearFeatureValues std_string feature = feature\<lparr>bytes_list := []\<rparr>"

section \<open>Copying values into a Feature\<close>

text \<open>
  What a caller hands to \<open>AppendFeatureValues\<close> and \<open>SetFeatureValues\<close>: the
  elements of an iterator range, a container or an initializer list, in order.  Its
  \<open>value_type\<close> decides the kind through \<open>FeatureTrait\<close>, so the three
  constructors are the three families of value types: integral elements and
  floating-point elements (\<open>float\<close>, \<open>double\<close>, \<open>long double\<close>) are given by
  their value, string-like elements by their characters.  Infinite and NaN elements
  of a floating-point source are not modelled.
\<close>

datatype ContainerType =
    IntegralValues "int list"
  | FloatingValues "real list"
  | StringValues "string list"

fun value_FeatureType :: "ContainerType \<Rightarrow> FeatureType" where
  "value_FeatureType (IntegralValues c) = protobuf_int64"
| "value_FeatureType (FloatingValues c) = float"
| "value_FeatureType (StringValues c) = std_string"

text \<open>
  The elements as they are stored.  Assigning an integral value to a
  \<open>protobuf_int64\<close> converts it modulo \<open>2 ^ 64\<close>, and assigning a floating-point
  value to a \<open>float\<close> rounds it.
\<close>

fun converted :: "ContainerType \<Rightarrow> RepeatedFieldTrait" where
  "converted (IntegralValues c) = RepeatedField_int64 (map word_of_int c)"
| "converted (FloatingValues c) = RepeatedField_float (map float_of_real c)"
| "converted (StringValues c) = RepeatedPtrField_string c"

text \<open>
  \<open>std::copy\<close> and \<open>std::move\<close> into a \<open>RepeatedFieldBackInserter\<close>: each element
  of the range, first to last, is assigned through the inserter, which adds it.
\<close>

primrec std_copy :: "('e \<Rightarrow> 's \<Rightarrow> 's) \<Rightarrow> 'e list \<Rightarrow> 's \<Rightarrow> 's" where
  "std_copy inserter [] values = values"
| "std_copy inserter (elt # rest) values = std_copy inserter rest (inserter elt values)"

text \<open>\<open>AppendFeatureValues(first, last, feature)\<close>.\<close>

fun AppendFeatureValues_range :: "ContainerType \<Rightarrow> Feature \<Rightarrow> Feature" where
  "AppendFeatureValues_range (IntegralValues r) feature =
     std_copy (\<lambda>elt. Add_int64 (word_of_int elt)) r
       (GetFeatureValues_mutable protobuf_int64 feature)"
| "AppendFeatureValues_range (FloatingValues r) feature =
     std_copy (\<lambda>elt. Add_float (float_of_real elt)) r
       (GetFeatureValues_mutable float feature)"
| "AppendFeatureValues_range (StringValues r) feature =
     std_copy Add_string r (GetFeatureValues_mutable std_string feature)"

text \<open>\<open>AppendFeatureValues(std::initializer_list<ValueType>, feature)\<close>.\<close>

fun AppendFeatureValues_init :: "ContainerType \<Rightarrow> Feature \<Rightarrow> Feature" where
  "AppendFeatureValues_init (IntegralValues c) feature =
     (let values = GetFeatureValues_mutable protobuf_int64 feature;
          values = Reserve (length c) values
      in std_copy (\<lambda>elt. Add_int64 (word_of_int elt)) c values)"
| "AppendFeatureValues_init (FloatingValues c) feature =
     (let values = GetFeatureValues_mutable float feature;
          values = Reserve (length c) values
      in std_copy (\<lambda>elt. Add_float (float_of_real elt)) c values)"
| "AppendFeatureValues_init (StringValues c) feature =
     (let values = GetFeatureValues_mutable std_string feature;
          values = Reserve (length c) values
      in std_copy Add_string c values)"

text \<open>
  \<open>AppendFeatureValues(const ContainerType&, feature)\<close>: the range-based for loop
  is a fold over the container.
\<close>

fun AppendFeatureValues :: "ContainerType \<Rightarrow> Feature \<Rightarrow> Feature" where
  "AppendFeatureValues (IntegralValues c) feature =
     (let values = GetFeatureValues_mutable protobuf_int64 feature;
          values = Reserve (length c) values
      in fold (\<lambda>elt. Add_int64 (word_of_int elt)) c values)"
| "AppendFeatureValues (FloatingValues c) feature =
     (let values = GetFeatureValues_mutable float feature;
          values = Reserve (length c) values
      in fold (\<lambda>elt. Add_float (float_of_real elt)) c values)"
| "AppendFeatureValues (StringValues c) feature =
     (let values = GetFeatureValues_mutable std_string feature;
          values = Reserve (length c) values
      in fold Add_string c values)"

text \<open>The three \<open>SetFeatureValues\<close> on a Feature: clear, then append.\<close>

definition SetFeatureValues_range :: "ContainerType \<Rightarrow> Feature \<Rightarrow> Feature" where
  "SetFeatureValues_range r feature =
     AppendFeatureValues_range r (ClearFeatureValues (value_FeatureType r) feature)"

definition SetFeatureValues_init :: "ContainerType \<Rightarrow> Feature \<Rightarrow> Feature" where
  "SetFeatureValues_init c feature =
     AppendFeatureValues_init c (ClearFeatureValues (value_FeatureType c) feature)"

definition SetFeatureValues :: "ContainerType \<Rightarrow> Feature \<Rightarrow> Feature" where
  "SetFeatureValues c feature =
     AppendFeatureValues c (ClearFeatureValues (value_FeatureType c) feature)"

section \<open>Features of a proto, and a Feature by key\<close>

text \<open>
  Modelled from the spec: \<open>GetFeatures\<close>, declared and not defined in the header.
  It returns the Features of a proto: the proto itself, or the one an Example wraps.
  The overload on a pointer returns a pointer to the same Features;
  \<open>put_Features\<close> is a write through that pointer.
\<close>

fun GetFeatures :: "ProtoType \<Rightarrow> Features" where
  "GetFeatures (Features_proto fs) = fs"
| "GetFeatures (Example_proto example) = features example"

fun put_Features :: "Features \<Rightarrow> ProtoType \<Rightarrow> ProtoType" where
  "put_Features fs (Features_proto _) = Features_proto fs"
| "put_Features fs (Example_proto example) = Example_proto (example\<lparr>features := fs\<rparr>)"

text \<open>
  The two lookups of the protobuf map the header uses: \<open>at\<close> fails on a key that is
  absent, and \<open>operator[]\<close> first inserts a default Feature under it.  The latter
  returns a reference to the entry: here the Feature found there, and the map as the
  call leaves it.
\<close>

definition Map_at :: "string \<Rightarrow> Features \<Rightarrow> error + Feature" where
  "Map_at key m = (case m key of None \<Rightarrow> Inl LookupError | Some feature \<Rightarrow> Inr feature)"

definition Map_subscript :: "string \<Rightarrow> Features \<Rightarrow> Feature \<times> Features" where
  "Map_subscript key m =
     (case m key of
        None \<Rightarrow> (Feature_default, m(key \<mapsto> Feature_default))
      | Some feature \<Rightarrow> (feature, m))"

text \<open>\<open>GetFeature(key, const ProtoType&)\<close>.\<close>

definition GetFeature :: "string \<Rightarrow> ProtoType \<Rightarrow> error + Feature" where
  "GetFeature key proto = Map_at key (GetFeatures proto)"

text \<open>
  \<open>GetFeature(key, ProtoType*)\<close>, the same for its three key types.  The result is
  the Feature the returned pointer refers to, and the proto after the call.
\<close>

definition GetFeature_mutable :: "string \<Rightarrow> ProtoType \<Rightarrow> Feature \<times> ProtoType" where
  "GetFeature_mutable key proto =
     (let (feature, fs) = Map_subscript key (GetFeatures proto)
      in (feature, put_Features fs proto))"

text \<open>A write through a pointer to the Feature under \<open>key\<close>.\<close>

definition put_Feature :: "string \<Rightarrow> Feature \<Rightarrow> ProtoType \<Rightarrow> ProtoType" where
  "put_Feature key feature proto = put_Features ((GetFeatures proto)(key \<mapsto> feature)) proto"

text \<open>\<open>GetFeatureValues<FeatureType>(key, const ProtoType&)\<close>.\<close>

definition GetFeatureValues_key ::
  "ForeignPolicy \<Rightarrow> FeatureType \<Rightarrow> string \<Rightarrow> ProtoType \<Rightarrow>
     error + RepeatedFieldTrait" where
  "GetFeatureValues_key policy K key proto =
     (case Map_at key (GetFeatures proto) of
        Inl e \<Rightarrow> Inl e
      | Inr feature \<Rightarrow> GetFeatureValues policy K feature)"

text \<open>\<open>GetFeatureValues<FeatureType>(key, ProtoType*)\<close>: its effect on the proto.\<close>

definition GetFeatureValues_mutable_key ::
  "FeatureType \<Rightarrow> string \<Rightarrow> ProtoType \<Rightarrow> ProtoType" where
  "GetFeatureValues_mutable_key K key proto =
     (let (feature, fs) = Map_subscript key (GetFeatures proto)
      in put_Features (fs(key \<mapsto> GetFeatureValues_mutable K feature)) proto)"

text \<open>
  The overloads of \<open>AppendFeatureValues\<close> and \<open>SetFeatureValues\<close> that take a key
  and a proto.  Each passes \<open>GetFeature(key, GetFeatures(proto))\<close> on; as
  \<open>GetFeatures\<close> of a Features is that Features, this is the entry of \<open>proto\<close>
  under \<open>key\<close>.
\<close>

definition AppendFeatureValues_range_key ::
  "ContainerType \<Rightarrow> string \<Rightarrow> ProtoType \<Rightarrow> ProtoType" where
  "AppendFeatureValues_range_key r key proto =
     (let (feature, proto) = GetFeature_mutable key proto
      in put_Feature key (AppendFeatureValues_range r feature) proto)"

definition AppendFeatureValues_key ::
  "ContainerType \<Rightarrow> string \<Rightarrow> ProtoType \<Rightarrow> ProtoType" where
  "AppendFeatureValues_key c key proto =
     (let (feature, proto) = GetFeature_mutable key proto
      in put_Feature key (AppendFeatureValues c feature) proto)"

definition AppendFeatureValues_init_key ::
  "ContainerType \<Rightarrow> string \<Rightarrow> ProtoType \<Rightarrow> ProtoType" where
  "AppendFeatureValues_init_key c key proto =
     (let (feature, proto) = GetFeature_mutable key proto
      in put_Feature key (AppendFeatureValues_init c feature) proto)"

definition SetFeatureValues_range_key ::
  "ContainerType \<Rightarrow> string \<Rightarrow> ProtoType \<Rightarrow> ProtoType" where
  "SetFeatureValues_range_key r key proto =
     (let (feature, proto) = GetFeature_mutable key proto
      in put_Feature key (SetFeatureValues_range r feature) proto)"

definition SetFeatureValues_key ::
  "ContainerType \<Rightarrow> string \<Rightarrow> ProtoType \<Rightarrow> ProtoType" where
  "SetFeatureValues_key c key proto =
     (let (feature, proto) = GetFeature_mutable key proto
      in put_Feature key (SetFeatureValues c feature) proto)"

definition SetFeatureValues_init_key ::
  "ContainerType \<Rightarrow> string \<Rightarrow> ProtoType \<Rightarrow> ProtoType" where
  "SetFeatureValues_init_key c key proto =
     (let (feature, proto) = GetFeature_mutable key proto
      in put_Feature key (SetFeatureValues_init c feature) proto)"

section \<open>Existence predicates\<close>

text \<open>
  Modelled from the spec: \<open>HasFeature<FeatureType...>(key, const Features&)\<close>,
  declared and not defined in the header.  The parameter pack holds no type or one:
  with none the key only has to be present, with one the Feature under it must also
  have that kind.
\<close>

fun HasFeature :: "FeatureType option \<Rightarrow> string \<Rightarrow> Features \<Rightarrow> bool" where
  "HasFeature None key fs = (fs key \<noteq> None)"
| "HasFeature (Some K) key fs =
     (case fs key of
        None \<Rightarrow> False
      | Some feature \<Rightarrow> kind_case feature = KindCase_of K)"

text \<open>\<open>HasFeature<FeatureType...>(key, const Example&)\<close>.\<close>

definition HasFeature_Example :: "FeatureType option \<Rightarrow> string \<Rightarrow> Example \<Rightarrow> bool" where
  "HasFeature_Example pack key example =
     HasFeature pack key (GetFeatures (Example_proto example))"

definition ExampleHasFeature :: "FeatureType option \<Rightarrow> string \<Rightarrow> Example \<Rightarrow> bool" where
  "ExampleHasFeature pack key example = HasFeature_Example pack key example"

section \<open>Feature lists of a SequenceExample\<close>

text \<open>
  Modelled from the spec: \<open>HasFeatureList\<close> and the two \<open>GetFeatureList\<close>, declared
  and not defined in the header.  The read-only lookup fails on a key that is absent;
  the mutable one creates an empty list under it.
\<close>

definition HasFeatureList :: "string \<Rightarrow> SequenceExample \<Rightarrow> bool" where
  "HasFeatureList key sequence_example = (feature_lists sequence_example key \<noteq> None)"

definition GetFeatureList :: "string \<Rightarrow> SequenceExample \<Rightarrow> error + Feature list" where
  "GetFeatureList key sequence_example =
     (case feature_lists sequence_example key of
        None \<Rightarrow> Inl LookupError
      | Some fl \<Rightarrow> Inr fl)"

definition GetFeatureList_mutable ::
  "string \<Rightarrow> SequenceExample \<Rightarrow> Feature list \<times> SequenceExample" where
  "GetFeatureList_mutable key sequence_example =
     (case feature_lists sequence_example key of
        None \<Rightarrow> ([], sequence_example
                  \<lparr>feature_lists := (feature_lists sequence_example)(key \<mapsto> [])\<rparr>)
      | Some fl \<Rightarrow> (fl, sequence_example))"

text \<open>
  \<open>Add()\<close> on the repeated field of Feature behind that pointer puts a new default
  Feature at the back and returns a pointer to it: here its index.
\<close>

definition Add_Feature :: "string \<Rightarrow> SequenceExample \<Rightarrow> nat \<times> SequenceExample" where
  "Add_Feature key sequence_example =
     (let (fl, se) = GetFeatureList_mutable key sequence_example
      in (length fl, se\<lparr>feature_lists := (feature_lists se)(key \<mapsto> fl @ [Feature_default])\<rparr>))"

text \<open>
  The call \<open>AppendFeatureValues(c, GetFeatureList(key, &se)->Add())\<close> of the header's
  opening comment: the values go into the Feature \<open>Add\<close> has just made.
\<close>

definition AppendFeatureValues_Add ::
  "ContainerType \<Rightarrow> string \<Rightarrow> SequenceExample \<Rightarrow> SequenceExample" where
  "AppendFeatureValues_Add c key sequence_example =
     (let (i, se) = Add_Feature key sequence_example
      in case feature_lists se key of
           None \<Rightarrow> se
         | Some fl \<Rightarrow>
             se\<lparr>feature_lists :=
                  (feature_lists se)(key \<mapsto> fl[i := AppendFeatureValues_init c (fl ! i)])\<rparr>)"

section \<open>Notions the properties are stated with\<close>

text \<open>
  The values that fit the storage of their kind: an integral value fits when it is a
  signed 64-bit number, a floating-point value when it is a finite \<open>float\<close>;
  strings are stored as they are.
\<close>

fun representable :: "ContainerType \<Rightarrow> bool" where
  "representable (IntegralValues c) = list_all (\<lambda>v. - (2 ^ 63) \<le> v \<and> v < 2 ^ 63) c"
| "representable (FloatingValues c) = list_all is_float32 c"
| "representable (StringValues c) = True"

text \<open>
  The values a typed view holds, read as the caller's values; a view that holds an
  infinity has none.
\<close>

fun reals_of :: "float32 list \<Rightarrow> real list option" where
  "reals_of [] = Some []"
| "reals_of (v # vs) =
     (case real_of_float32 v of
        None \<Rightarrow> None
      | Some x \<Rightarrow> (case reals_of vs of None \<Rightarrow> None | Some xs \<Rightarrow> Some (x # xs)))"

fun read_back :: "RepeatedFieldTrait \<Rightarrow> ContainerType option" where
  "read_back (RepeatedField_int64 vs) = Some (IntegralValues (map sint vs))"
| "read_back (RepeatedField_float vs) = map_option FloatingValues (reals_of vs)"
| "read_back (RepeatedPtrField_string vs) = Some (StringValues vs)"

text \<open>The source with no elements whose value type resolves to kind \<open>K\<close>.\<close>

fun empty_source :: "FeatureType \<Rightarrow> ContainerType" where
  "empty_source protobuf_int64 = IntegralValues []"
| "empty_source float = FloatingValues []"
| "empty_source std_string = StringValues []"

text \<open>The Feature a mutable lookup finds in a map entry: a default one if none is there.\<close>

definition found :: "Feature option \<Rightarrow> Feature" where
  "found entry = (case entry of None \<Rightarrow> Feature_default | Some feature \<Rightarrow> feature)"

text \<open>The Features of a feature list entry: none if there is no entry.\<close>

definition listed :: "Feature list option \<Rightarrow> Feature list" where
  "listed entry = (case entry of None \<Rightarrow> [] | Some fl \<Rightarrow> fl)"

text \<open>The oneof invariant of what a map entry or a feature list entry holds.\<close>

definition entry_invariant :: "Feature option \<Rightarrow> bool" where
  "entry_invariant entry =
     (case entry of None \<Rightarrow> True | Some feature \<Rightarrow> oneof_invariant feature)"

definition list_invariant :: "Feature list option \<Rightarrow> bool" where
  "list_invariant entry =
     (case entry of None \<Rightarrow> True | Some fl \<Rightarrow> list_all oneof_invariant fl)"

section \<open>Rounding to float\<close>

lemma round_half_even_of_int: "round_half_even (of_int n) = n"
  by (simp add: round_half_even_def)

text \<open>A value that is a float is converted to itself.\<close>

lemma float_of_real_exact:
  assumes "is_float32 x"
  shows "float_of_real x = Float32 x"
proof -
  define s where "s = \<bar>x\<bar> * 2 ^ 149"
  define k where "k = quantum s"
  from assms have lt: "s < 2 ^ 277" and int: "of_int \<lfloor>s / 2 ^ k\<rfloor> = s / 2 ^ k"
    by (simp_all add: is_float32_def s_def k_def Let_def)
  have m: "round_half_even (s / 2 ^ k) = \<lfloor>s / 2 ^ k\<rfloor>"
    using round_half_even_of_int [of "\<lfloor>s / 2 ^ k\<rfloor>"] int by simp
  have v: "real_of_int \<lfloor>s / 2 ^ k\<rfloor> * 2 ^ k = s"
    by (subst int) simp
  have x: "sgn x * s / 2 ^ 149 = x"
    by (simp add: s_def sgn_mult_abs mult.assoc [symmetric])
  have "float_of_real x =
     (if 2 ^ 277 \<le> of_int (round_half_even (s / 2 ^ k)) * (2 :: real) ^ k
      then (if x < 0 then MinusInfinity else PlusInfinity)
      else Float32 (sgn x * (of_int (round_half_even (s / 2 ^ k)) * 2 ^ k) / 2 ^ 149))"
    by (simp only: float_of_real_def Let_def s_def k_def)
  also have "\<dots> = Float32 (sgn x * s / 2 ^ 149)"
    using lt by (simp only: m v if_False not_le [symmetric])
  finally show ?thesis
    by (simp only: x)
qed

lemma quantum_bound:
  assumes "0 \<le> s"
  shows "s < 2 ^ (24 + quantum s)"
proof -
  define F where "F = \<lfloor>s\<rfloor>"
  have F0: "0 \<le> F" using assms by (simp add: F_def)
  have "F < 2 ^ (24 + quantum s)"
  proof (cases "F = 0")
    case True
    then show ?thesis by simp
  next
    case False
    with F0 have pos: "0 < F" by simp
    then have "F < 2 ^ nat (bitlen F)"
      using bitlen_bounds [of F] by simp
    also have "nat (bitlen F) \<le> 24 + quantum s"
      by (simp add: quantum_def F_def)
    then have "(2 :: int) ^ nat (bitlen F) \<le> 2 ^ (24 + quantum s)"
      by (rule power_increasing) simp
    finally show ?thesis .
  qed
  then have "F + 1 \<le> 2 ^ (24 + quantum s)" by simp
  then have "real_of_int (F + 1) \<le> real_of_int (2 ^ (24 + quantum s))"
    by (simp only: of_int_le_iff)
  moreover have "s < real_of_int (F + 1)"
    by (simp add: F_def)
  ultimately show ?thesis by simp
qed

lemma quantum_le:
  assumes "0 \<le> s" "s < 2 ^ (24 + j)"
  shows "quantum s \<le> j"
proof -
  have "\<lfloor>s\<rfloor> < 2 ^ (24 + j)"
    using assms by (simp add: floor_less_iff)
  moreover have "nat (int (24 + j)) = 24 + j"
    by (simp only: nat_int)
  ultimately have "bitlen \<lfloor>s\<rfloor> \<le> int (24 + j)"
    by (simp only: bitlen_le_iff_power of_nat_0_le_iff simp_thms)
  then show ?thesis
    by (simp add: quantum_def)
qed

text \<open>
  The floats are the values \<open>m * 2 ^ e\<close> with \<open>\<bar>m\<bar> < 2 ^ 24\<close> and
  \<open>- 149 \<le> e \<le> 104\<close>; below, \<open>j\<close> is \<open>e + 149\<close>.
\<close>

lemma is_float32_iff:
  "is_float32 x \<longleftrightarrow>
     (\<exists>(m :: int) (j :: nat). \<bar>m\<bar> < 2 ^ 24 \<and> j \<le> 253 \<and> x = of_int m * 2 ^ j / 2 ^ 149)"
proof
  assume a: "is_float32 x"
  define s where "s = \<bar>x\<bar> * 2 ^ 149"
  define q where "q = quantum s"
  define n where "n = \<lfloor>s / 2 ^ q\<rfloor>"
  have s0: "0 \<le> s" by (simp add: s_def)
  from a have lt: "s < 2 ^ 277" and int: "of_int n = s / 2 ^ q"
    by (simp_all add: is_float32_def s_def q_def n_def Let_def)
  have sn: "s = of_int n * 2 ^ q"
    by (subst int) simp
  have "s < 2 ^ (24 + q)"
    using quantum_bound [OF s0] by (simp add: q_def)
  then have "s / 2 ^ q < 2 ^ 24"
    by (simp add: power_add divide_less_eq)
  then have "real_of_int n < real_of_int (2 ^ 24)"
    by (simp only: int) simp
  then have n24: "n < 2 ^ 24"
    by (simp only: of_int_less_iff)
  have n0: "0 \<le> n"
    using s0 by (simp add: n_def)
  have q253: "q \<le> 253"
    using quantum_le [of s 253] s0 lt by (simp add: q_def)
  have n_zero: "x = 0 \<Longrightarrow> n = 0"
    by (simp add: n_def s_def)
  have "x = sgn x * \<bar>x\<bar>"
    by (simp add: sgn_mult_abs)
  also have "\<bar>x\<bar> = s / 2 ^ 149"
    by (simp add: s_def)
  finally have x: "x = of_int (if x < 0 then - n else n) * 2 ^ q / 2 ^ 149"
    using n_zero by (auto simp: sn sgn_if)
  have "\<bar>if x < 0 then - n else n\<bar> < 2 ^ 24"
    using n0 n24 by simp
  with q253 x show "\<exists>(m :: int) (j :: nat). \<bar>m\<bar> < 2 ^ 24 \<and> j \<le> 253 \<and> x = of_int m * 2 ^ j / 2 ^ 149"
    by blast
next
  assume "\<exists>(m :: int) (j :: nat). \<bar>m\<bar> < 2 ^ 24 \<and> j \<le> 253 \<and> x = of_int m * 2 ^ j / 2 ^ 149"
  then obtain m :: int and j :: nat
    where m: "\<bar>m\<bar> < 2 ^ 24" and j: "j \<le> 253" and x: "x = of_int m * 2 ^ j / 2 ^ 149"
    by blast
  define s where "s = \<bar>x\<bar> * 2 ^ 149"
  define q where "q = quantum s"
  have s: "s = of_int \<bar>m\<bar> * 2 ^ j"
    by (simp add: s_def x abs_mult)
  have s0: "0 \<le> s" by (simp add: s_def)
  have "real_of_int \<bar>m\<bar> < real_of_int (2 ^ 24)"
    using m by (simp only: of_int_less_iff)
  then have "real_of_int \<bar>m\<bar> < 2 ^ 24"
    by simp
  then have lt: "s < 2 ^ (24 + j)"
    by (simp add: s power_add)
  also have "(2 :: real) ^ (24 + j) \<le> 2 ^ 277"
    using j by (intro power_increasing) simp_all
  finally have lt277: "s < 2 ^ 277" .
  have qj: "q \<le> j"
    using quantum_le [OF s0 lt] by (simp add: q_def)
  then obtain d where d: "j = q + d"
    using le_Suc_ex by blast
  have "s / 2 ^ q = of_int (\<bar>m\<bar> * 2 ^ d)"
    by (simp add: s d power_add)
  then have "of_int \<lfloor>s / 2 ^ q\<rfloor> = s / 2 ^ q"
    by (simp only: floor_of_int)
  with lt277 show "is_float32 x"
    by (simp add: is_float32_def Let_def s_def q_def)
qed

text \<open>
  Values that are floats, and values that are not: \<open>2 ^ 24 + 1\<close> lies halfway between
  two floats and goes to the even one, a tenth goes to the float next to it, and
  \<open>2 ^ 128\<close> to infinity.
\<close>

lemma is_float32_examples:
  "is_float32 0" "is_float32 3" "is_float32 4" "is_float32 5" "is_float32 (3 / 2)"
  "\<not> is_float32 16777217" "\<not> is_float32 (1 / 10)"
  by code_simp+

lemma float_of_real_examples:
  "float_of_real 3 = Float32 3"
  "float_of_real 4 = Float32 4"
  "float_of_real 5 = Float32 5"
  "float_of_real 16777217 = Float32 16777216"
  "float_of_real (1 / 10) = Float32 (13421773 / 134217728)"
  "float_of_real (2 ^ 128) = PlusInfinity"
  by code_simp+

section \<open>Copying is appending at the back\<close>

lemma std_copy_fold: "std_copy inserter r dst = fold inserter r dst"
  by (induction r arbitrary: dst) simp_all

lemma fold_Add_int64:
  "fold (\<lambda>elt. Add_int64 (g elt)) c dst =
     dst\<lparr>int64_list := int64_list dst @ map g c\<rparr>"
  by (induction c arbitrary: dst) (simp_all add: Add_int64_def)

lemma fold_Add_float:
  "fold (\<lambda>elt. Add_float (g elt)) c dst =
     dst\<lparr>float_list := float_list dst @ map g c\<rparr>"
  by (induction c arbitrary: dst) (simp_all add: Add_float_def)

lemma fold_Add_string:
  "fold Add_string c dst = dst\<lparr>bytes_list := bytes_list dst @ c\<rparr>"
  by (induction c arbitrary: dst) (simp_all add: Add_string_def)

lemmas fold_Add = fold_Add_int64 fold_Add_float fold_Add_string

lemma AppendFeatureValues_range_eq:
  "AppendFeatureValues_range c feature = AppendFeatureValues c feature"
  by (cases c) (simp_all add: std_copy_fold Reserve_def)

lemma AppendFeatureValues_init_eq:
  "AppendFeatureValues_init c feature = AppendFeatureValues c feature"
  by (cases c) (simp_all add: std_copy_fold Reserve_def)

lemma SetFeatureValues_range_eq:
  "SetFeatureValues_range c feature = SetFeatureValues c feature"
  by (simp add: SetFeatureValues_range_def SetFeatureValues_def AppendFeatureValues_range_eq)

lemma SetFeatureValues_init_eq:
  "SetFeatureValues_init c feature = SetFeatureValues c feature"
  by (simp add: SetFeatureValues_init_def SetFeatureValues_def AppendFeatureValues_init_eq)

lemma AppendFeatureValues_stores:
  "AppendFeatureValues c feature =
     (case c of
        IntegralValues vs \<Rightarrow>
          (GetFeatureValues_mutable protobuf_int64 feature)
            \<lparr>int64_list :=
               int64_list (GetFeatureValues_mutable protobuf_int64 feature) @ map word_of_int vs\<rparr>
      | FloatingValues vs \<Rightarrow>
          (GetFeatureValues_mutable float feature)
            \<lparr>float_list :=
               float_list (GetFeatureValues_mutable float feature) @ map float_of_real vs\<rparr>
      | StringValues vs \<Rightarrow>
          (GetFeatureValues_mutable std_string feature)
            \<lparr>bytes_list := bytes_list (GetFeatureValues_mutable std_string feature) @ vs\<rparr>)"
  by (cases c) (simp_all add: Reserve_def fold_Add Let_def)

lemma SetFeatureValues_stores:
  "SetFeatureValues c feature =
     \<lparr>kind_case = KindCase_of (value_FeatureType c),
      bytes_list =
        (case c of StringValues vs \<Rightarrow> vs
         | _ \<Rightarrow> if kind_case feature = KindCase_of (value_FeatureType c)
               then bytes_list feature else []),
      float_list =
        (case c of FloatingValues vs \<Rightarrow> map float_of_real vs
         | _ \<Rightarrow> if kind_case feature = KindCase_of (value_FeatureType c)
               then float_list feature else []),
      int64_list =
        (case c of IntegralValues vs \<Rightarrow> map word_of_int vs
         | _ \<Rightarrow> if kind_case feature = KindCase_of (value_FeatureType c)
               then int64_list feature else [])\<rparr>"
  by (cases c)
    (simp_all add: SetFeatureValues_def GetFeatureValues_mutable_def Reserve_def fold_Add)

lemma GetFeatureValues_SetFeatureValues:
  "GetFeatureValues policy (value_FeatureType c) (SetFeatureValues c feature) =
     Inr (converted c)"
  by (cases c) (simp_all add: SetFeatureValues_stores GetFeatureValues_def)

lemma sint_word_of_int_64:
  "- (2 ^ 63) \<le> v \<Longrightarrow> v < 2 ^ 63 \<Longrightarrow> sint (word_of_int v :: 64 word) = v"
  by (simp add: sint_sbintrunc' signed_take_bit_int_eq_self)

lemma reals_of_float_of_real:
  "list_all is_float32 c \<Longrightarrow> reals_of (map float_of_real c) = Some c"
  by (induction c) (simp_all add: float_of_real_exact)

lemma read_back_converted:
  assumes "representable c"
  shows "read_back (converted c) = Some c"
proof (cases c)
  case (IntegralValues vs)
  with assms show ?thesis
    by (simp add: list_all_iff map_idI sint_word_of_int_64)
next
  case (FloatingValues vs)
  with assms show ?thesis
    by (simp add: reals_of_float_of_real)
next
  case (StringValues vs)
  then show ?thesis by simp
qed

section \<open>Maps of Features\<close>

lemma GetFeatures_put_Features: "GetFeatures (put_Features fs proto) = fs"
  by (cases proto) simp_all

lemma put_Features_GetFeatures: "put_Features (GetFeatures proto) proto = proto"
  by (cases proto) simp_all

lemma GetFeature_mutable_eq:
  "GetFeature_mutable key proto =
     (found (GetFeatures proto key),
      put_Features ((GetFeatures proto)(key \<mapsto> found (GetFeatures proto key))) proto)"
proof (cases "GetFeatures proto key")
  case None
  then show ?thesis
    by (simp add: GetFeature_mutable_def Map_subscript_def found_def)
next
  case (Some feature)
  then have "(GetFeatures proto)(key \<mapsto> feature) = GetFeatures proto"
    by (simp add: fun_upd_idem)
  with Some show ?thesis
    by (simp add: GetFeature_mutable_def Map_subscript_def found_def put_Features_GetFeatures)
qed

lemma GetFeatures_GetFeature_mutable:
  "GetFeatures (snd (GetFeature_mutable key proto)) =
     (GetFeatures proto)(key \<mapsto> found (GetFeatures proto key))"
  by (simp add: GetFeature_mutable_eq GetFeatures_put_Features)

lemma GetFeatures_GetFeatureValues_mutable_key:
  "GetFeatures (GetFeatureValues_mutable_key K key proto) =
     (GetFeatures proto)(key \<mapsto> GetFeatureValues_mutable K (found (GetFeatures proto key)))"
  by (simp add: GetFeatureValues_mutable_key_def Map_subscript_def found_def
      GetFeatures_put_Features split: option.split)

lemma GetFeatures_AppendFeatureValues_key:
  "GetFeatures (AppendFeatureValues_key c key proto) =
     (GetFeatures proto)(key \<mapsto> AppendFeatureValues c (found (GetFeatures proto key)))"
  by (simp add: AppendFeatureValues_key_def GetFeature_mutable_eq put_Feature_def
      GetFeatures_put_Features)

lemma GetFeatures_SetFeatureValues_key:
  "GetFeatures (SetFeatureValues_key c key proto) =
     (GetFeatures proto)(key \<mapsto> SetFeatureValues c (found (GetFeatures proto key)))"
  by (simp add: SetFeatureValues_key_def GetFeature_mutable_eq put_Feature_def
      GetFeatures_put_Features)

lemma AppendFeatureValues_key_overloads:
  "AppendFeatureValues_init_key c key proto = AppendFeatureValues_key c key proto"
  "AppendFeatureValues_range_key c key proto = AppendFeatureValues_key c key proto"
  by (simp_all add: AppendFeatureValues_init_key_def AppendFeatureValues_range_key_def
      AppendFeatureValues_key_def AppendFeatureValues_init_eq AppendFeatureValues_range_eq)

lemma SetFeatureValues_key_overloads:
  "SetFeatureValues_init_key c key proto = SetFeatureValues_key c key proto"
  "SetFeatureValues_range_key c key proto = SetFeatureValues_key c key proto"
  by (simp_all add: SetFeatureValues_init_key_def SetFeatureValues_range_key_def
      SetFeatureValues_key_def SetFeatureValues_init_eq SetFeatureValues_range_eq)

lemma feature_lists_AppendFeatureValues_Add:
  "feature_lists (AppendFeatureValues_Add c key se) =
     (feature_lists se)(key \<mapsto>
        listed (feature_lists se key) @ [AppendFeatureValues c Feature_default])"
  by (simp add: AppendFeatureValues_Add_def Add_Feature_def GetFeatureList_mutable_def
      listed_def AppendFeatureValues_init_eq split: option.split)

section \<open>The oneof invariant\<close>

lemma oneof_invariant_default: "oneof_invariant Feature_default"
  by (simp add: oneof_invariant_def Feature_default_def)

lemma oneof_invariant_populated: "oneof_invariant feature \<Longrightarrow> populated_lists feature \<le> 1"
  by (cases "kind_case feature") (auto simp: oneof_invariant_def populated_lists_def)

lemma oneof_invariant_mutable:
  "oneof_invariant feature \<Longrightarrow> oneof_invariant (GetFeatureValues_mutable K feature)"
  by (cases K) (auto simp: oneof_invariant_def GetFeatureValues_mutable_def)

lemma oneof_invariant_Add:
  "oneof_invariant feature \<Longrightarrow>
     oneof_invariant (Add_int64 i (GetFeatureValues_mutable protobuf_int64 feature))"
  "oneof_invariant feature \<Longrightarrow>
     oneof_invariant (Add_float x (GetFeatureValues_mutable float feature))"
  "oneof_invariant feature \<Longrightarrow>
     oneof_invariant (Add_string s (GetFeatureValues_mutable std_string feature))"
  by (auto simp: oneof_invariant_def GetFeatureValues_mutable_def
      Add_int64_def Add_float_def Add_string_def)

lemma oneof_invariant_Clear:
  "oneof_invariant feature \<Longrightarrow> oneof_invariant (ClearFeatureValues K feature)"
  by (cases K) (simp_all add: oneof_invariant_def)

lemma oneof_invariant_Append:
  "oneof_invariant feature \<Longrightarrow> oneof_invariant (AppendFeatureValues c feature)"
  by (cases c)
    (auto simp: oneof_invariant_def GetFeatureValues_mutable_def Reserve_def fold_Add)

lemma oneof_invariant_Set:
  "oneof_invariant feature \<Longrightarrow> oneof_invariant (SetFeatureValues c feature)"
  by (simp add: SetFeatureValues_def oneof_invariant_Append oneof_invariant_Clear)

lemma oneof_invariant_found:
  "entry_invariant entry \<Longrightarrow> oneof_invariant (found entry)"
  by (cases entry) (simp_all add: entry_invariant_def found_def oneof_invariant_default)

lemma SetFeatureValues_twice:
  "value_FeatureType a \<noteq> value_FeatureType b \<Longrightarrow>
     SetFeatureValues b (SetFeatureValues a feature) = SetFeatureValues b Feature_default"
  by (cases a; cases b) (simp_all add: SetFeatureValues_stores Feature_default_def)

lemma storage_SetFeatureValues_default:
  "K \<noteq> value_FeatureType b \<Longrightarrow>
     storage K (SetFeatureValues b Feature_default) = storage K Feature_default"
  by (cases b; cases K) (simp_all add: SetFeatureValues_stores Feature_default_def)


lemma entry_invariant_modify:
  assumes "entry_invariant (m key')"
    and "oneof_invariant (found (m key)) \<Longrightarrow> oneof_invariant (g (found (m key)))"
  shows "entry_invariant ((m(key \<mapsto> g (found (m key)))) key')"
proof (cases "key' = key")
  case True
  with assms(1) have "oneof_invariant (found (m key))"
    by (simp add: oneof_invariant_found)
  with assms(2) True show ?thesis
    by (simp add: entry_invariant_def)
next
  case False
  with assms(1) show ?thesis by simp
qed

lemma entry_invariant_GetFeature_mutable:
  "entry_invariant (GetFeatures proto key') \<Longrightarrow>
     entry_invariant (GetFeatures (snd (GetFeature_mutable key proto)) key')"
  using entry_invariant_modify [of "GetFeatures proto" key' key "\<lambda>feature. feature"]
  by (simp add: GetFeatures_GetFeature_mutable)

lemma entry_invariant_GetFeatureValues_mutable_key:
  "entry_invariant (GetFeatures proto key') \<Longrightarrow>
     entry_invariant (GetFeatures (GetFeatureValues_mutable_key K key proto) key')"
  using entry_invariant_modify [of "GetFeatures proto" key' key "GetFeatureValues_mutable K"]
  by (simp add: GetFeatures_GetFeatureValues_mutable_key oneof_invariant_mutable)

lemma entry_invariant_AppendFeatureValues_key:
  "entry_invariant (GetFeatures proto key') \<Longrightarrow>
     entry_invariant (GetFeatures (AppendFeatureValues_key c key proto) key')"
  using entry_invariant_modify [of "GetFeatures proto" key' key "AppendFeatureValues c"]
  by (simp add: GetFeatures_AppendFeatureValues_key oneof_invariant_Append)

lemma entry_invariant_SetFeatureValues_key:
  "entry_invariant (GetFeatures proto key') \<Longrightarrow>
     entry_invariant (GetFeatures (SetFeatureValues_key c key proto) key')"
  using entry_invariant_modify [of "GetFeatures proto" key' key "SetFeatureValues c"]
  by (simp add: GetFeatures_SetFeatureValues_key oneof_invariant_Set)

lemma list_invariant_AppendFeatureValues_Add:
  assumes "list_invariant (feature_lists se key')"
  shows "list_invariant (feature_lists (AppendFeatureValues_Add c key se) key')"
proof (cases "key' = key")
  case True
  with assms have "list_all oneof_invariant (listed (feature_lists se key))"
    by (cases "feature_lists se key") (simp_all add: list_invariant_def listed_def)
  with True show ?thesis
    by (simp add: feature_lists_AppendFeatureValues_Add list_invariant_def
        oneof_invariant_Append oneof_invariant_default)
next
  case False
  with assms show ?thesis
    by (simp add: feature_lists_AppendFeatureValues_Add)
qed

section \<open>Setting and reading back\<close>

text \<open>
  C1.  For every kind and every sequence of values of that kind, setting the values
  into a Feature and then reading the values of that kind yields the values as they
  are stored, in order, whatever the Feature held before, for each of the three
  \<open>SetFeatureValues\<close> on a Feature and each of the three by key.  The stored values
  are the caller's values converted: an integral value modulo \<open>2 ^ 64\<close>, a
  floating-point value rounded to \<open>float\<close>.  Values that fit the storage (signed
  64-bit integers, finite floats, strings) are therefore read back exactly as given;
  a tenth and \<open>2 ^ 24 + 1\<close>, which are not floats, are read back as the floats next to
  them.
\<close>

theorem SetFeatureValues_round_trip:
  "GetFeatureValues policy (value_FeatureType c) (SetFeatureValues c feature)
     = Inr (converted c) \<and>
   GetFeatureValues policy (value_FeatureType c) (SetFeatureValues_init c feature)
     = Inr (converted c) \<and>
   GetFeatureValues policy (value_FeatureType c) (SetFeatureValues_range c feature)
     = Inr (converted c) \<and>
   GetFeatureValues_key policy (value_FeatureType c) key (SetFeatureValues_key c key proto)
     = Inr (converted c) \<and>
   GetFeatureValues_key policy (value_FeatureType c) key
       (SetFeatureValues_init_key c key proto)
     = Inr (converted c) \<and>
   GetFeatureValues_key policy (value_FeatureType c) key
       (SetFeatureValues_range_key c key proto)
     = Inr (converted c) \<and>
   (representable c \<longrightarrow>
      map_sum id read_back
        (GetFeatureValues policy (value_FeatureType c) (SetFeatureValues c feature))
        = Inr (Some c) \<and>
      map_sum id read_back
        (GetFeatureValues policy (value_FeatureType c) (SetFeatureValues_init c feature))
        = Inr (Some c) \<and>
      map_sum id read_back
        (GetFeatureValues policy (value_FeatureType c) (SetFeatureValues_range c feature))
        = Inr (Some c) \<and>
      map_sum id read_back
        (GetFeatureValues_key policy (value_FeatureType c) key
           (SetFeatureValues_key c key proto))
        = Inr (Some c))"
proof -
  have k: "GetFeatureValues_key policy (value_FeatureType c) key
      (SetFeatureValues_key c key proto) = Inr (converted c)"
    by (simp add: GetFeatureValues_key_def Map_at_def GetFeatures_SetFeatureValues_key
        GetFeatureValues_SetFeatureValues)
  show ?thesis
    by (simp add: SetFeatureValues_range_eq SetFeatureValues_init_eq
        SetFeatureValues_key_overloads GetFeatureValues_SetFeatureValues k
        read_back_converted)
qed

theorem SetFeatureValues_round_trip_witness:
  "representable (IntegralValues [1, - 2, 3]) \<and>
   map_sum id read_back
     (GetFeatureValues FailOnForeignKind protobuf_int64
        (SetFeatureValues (IntegralValues [1, - 2, 3])
           \<lparr>kind_case = kInt64List, bytes_list = [], float_list = [],
            int64_list = [7]\<rparr>))
     = Inr (Some (IntegralValues [1, - 2, 3])) \<and>
   representable (FloatingValues [4, 3 / 2]) \<and>
   map_sum id read_back
     (GetFeatureValues FailOnForeignKind float
        (SetFeatureValues_range (FloatingValues [4, 3 / 2])
           \<lparr>kind_case = kInt64List, bytes_list = [], float_list = [],
            int64_list = [7]\<rparr>))
     = Inr (Some (FloatingValues [4, 3 / 2])) \<and>
   GetFeatureValues_key FailOnForeignKind protobuf_int64 ''tag''
     (SetFeatureValues_key (IntegralValues [1, 2, 3]) ''tag''
        (Example_proto \<lparr>features = Map.empty\<rparr>))
     = Inr (RepeatedField_int64 [1, 2, 3]) \<and>
   GetFeatureValues FailOnForeignKind float
     (SetFeatureValues (FloatingValues [1 / 10, 16777217]) Feature_default)
     = Inr (RepeatedField_float [Float32 (13421773 / 134217728), Float32 16777216])"
proof -
  have h1: "representable (IntegralValues [1, - 2, 3])"
    by simp
  have h2: "representable (FloatingValues [4, 3 / 2])"
    by (simp add: is_float32_examples)
  note T1 = SetFeatureValues_round_trip [of FailOnForeignKind "IntegralValues [1, - 2, 3]"
      "\<lparr>kind_case = kInt64List, bytes_list = [], float_list = [], int64_list = [7]\<rparr>"
      "''tag''" "Example_proto \<lparr>features = Map.empty\<rparr>"]
  note T2 = SetFeatureValues_round_trip [of FailOnForeignKind "FloatingValues [4, 3 / 2]"
      "\<lparr>kind_case = kInt64List, bytes_list = [], float_list = [], int64_list = [7]\<rparr>"
      "''tag''" "Example_proto \<lparr>features = Map.empty\<rparr>"]
  note T3 = SetFeatureValues_round_trip [of FailOnForeignKind "IntegralValues [1, 2, 3]"
      _ "''tag''" "Example_proto \<lparr>features = Map.empty\<rparr>"]
  have c1: "map_sum id read_back
     (GetFeatureValues FailOnForeignKind protobuf_int64
        (SetFeatureValues (IntegralValues [1, - 2, 3])
           \<lparr>kind_case = kInt64List, bytes_list = [], float_list = [],
            int64_list = [7]\<rparr>))
     = Inr (Some (IntegralValues [1, - 2, 3]))"
    using T1 h1 by simp
  have c2: "map_sum id read_back
     (GetFeatureValues FailOnForeignKind float
        (SetFeatureValues_range (FloatingValues [4, 3 / 2])
           \<lparr>kind_case = kInt64List, bytes_list = [], float_list = [],
            int64_list = [7]\<rparr>))
     = Inr (Some (FloatingValues [4, 3 / 2]))"
  proof -
    from T2 h2 have "map_sum id read_back
       (GetFeatureValues FailOnForeignKind (value_FeatureType (FloatingValues [4, 3 / 2]))
          (SetFeatureValues_range (FloatingValues [4, 3 / 2])
             \<lparr>kind_case = kInt64List, bytes_list = [], float_list = [],
              int64_list = [7]\<rparr>))
       = Inr (Some (FloatingValues [4, 3 / 2]))"
      by blast
    then show ?thesis
      by (simp only: value_FeatureType.simps)
  qed
  have c3: "GetFeatureValues_key FailOnForeignKind protobuf_int64 ''tag''
     (SetFeatureValues_key (IntegralValues [1, 2, 3]) ''tag''
        (Example_proto \<lparr>features = Map.empty\<rparr>))
     = Inr (RepeatedField_int64 [1, 2, 3])"
    using T3 by simp
  note T4 = SetFeatureValues_round_trip [of FailOnForeignKind
      "FloatingValues [1 / 10, 16777217]" Feature_default
      "''tag''" "Example_proto \<lparr>features = Map.empty\<rparr>"]
  from T4 have "GetFeatureValues FailOnForeignKind
       (value_FeatureType (FloatingValues [1 / 10, 16777217]))
       (SetFeatureValues (FloatingValues [1 / 10, 16777217]) Feature_default)
     = Inr (converted (FloatingValues [1 / 10, 16777217]))"
    by blast
  then have c4: "GetFeatureValues FailOnForeignKind float
       (SetFeatureValues (FloatingValues [1 / 10, 16777217]) Feature_default)
     = Inr (RepeatedField_float [Float32 (13421773 / 134217728), Float32 16777216])"
    by (simp only: value_FeatureType.simps converted.simps list.map float_of_real_examples)
  from h1 h2 c1 c2 c3 c4 show ?thesis by blast
qed

section \<open>The oneof invariant under every operation\<close>

text \<open>
  C2.  Every operation keeps the oneof invariant of a Feature: the mutable typed view
  and an \<open>Add\<close> through it, \<open>ClearFeatureValues\<close>, the three
  \<open>AppendFeatureValues\<close> and the three \<open>SetFeatureValues\<close>; under the invariant at
  most one of the three lists holds values.  The operations by key keep the invariant
  of every entry of the map, and appending a Feature to a feature list keeps it for
  every Feature of the list.  After a set under one kind and then a set under another
  kind, by any of the three \<open>SetFeatureValues\<close> on a Feature or any of the three by
  key, the storage of the first kind is empty, reading the second kind yields the
  second values as they are stored, and the Feature is the one a set of the second
  values into a new Feature gives.
\<close>

theorem oneof_invariant_preserved:
  "(oneof_invariant feature \<longrightarrow>
      oneof_invariant (GetFeatureValues_mutable K feature) \<and>
      oneof_invariant (Add_int64 i (GetFeatureValues_mutable protobuf_int64 feature)) \<and>
      oneof_invariant (Add_float x (GetFeatureValues_mutable float feature)) \<and>
      oneof_invariant (Add_string s (GetFeatureValues_mutable std_string feature)) \<and>
      oneof_invariant (ClearFeatureValues K feature) \<and>
      oneof_invariant (AppendFeatureValues c feature) \<and>
      oneof_invariant (AppendFeatureValues_init c feature) \<and>
      oneof_invariant (AppendFeatureValues_range c feature) \<and>
      oneof_invariant (SetFeatureValues c feature) \<and>
      oneof_invariant (SetFeatureValues_init c feature) \<and>
      oneof_invariant (SetFeatureValues_range c feature) \<and>
      populated_lists feature \<le> 1) \<and>
   (entry_invariant (GetFeatures proto key') \<longrightarrow>
      entry_invariant (GetFeatures (snd (GetFeature_mutable key proto)) key') \<and>
      entry_invariant (GetFeatures (GetFeatureValues_mutable_key K key proto) key') \<and>
      entry_invariant (GetFeatures (AppendFeatureValues_key c key proto) key') \<and>
      entry_invariant (GetFeatures (AppendFeatureValues_init_key c key proto) key') \<and>
      entry_invariant (GetFeatures (AppendFeatureValues_range_key c key proto) key') \<and>
      entry_invariant (GetFeatures (SetFeatureValues_key c key proto) key') \<and>
      entry_invariant (GetFeatures (SetFeatureValues_init_key c key proto) key') \<and>
      entry_invariant (GetFeatures (SetFeatureValues_range_key c key proto) key')) \<and>
   (list_invariant (feature_lists se list_key') \<longrightarrow>
      list_invariant (feature_lists (AppendFeatureValues_Add c list_key se) list_key')) \<and>
   (value_FeatureType a \<noteq> value_FeatureType b \<longrightarrow>
      storage (value_FeatureType a) (SetFeatureValues b (SetFeatureValues a feature))
        = storage (value_FeatureType a) Feature_default \<and>
      GetFeatureValues policy (value_FeatureType b)
          (SetFeatureValues b (SetFeatureValues a feature))
        = Inr (converted b) \<and>
      oneof_invariant (SetFeatureValues b (SetFeatureValues a feature)) \<and>
      SetFeatureValues b (SetFeatureValues a feature)
        = SetFeatureValues b Feature_default \<and>
      storage (value_FeatureType a) (SetFeatureValues_init b (SetFeatureValues_init a feature))
        = storage (value_FeatureType a) Feature_default \<and>
      GetFeatureValues policy (value_FeatureType b)
          (SetFeatureValues_init b (SetFeatureValues_init a feature))
        = Inr (converted b) \<and>
      oneof_invariant (SetFeatureValues_init b (SetFeatureValues_init a feature)) \<and>
      SetFeatureValues_init b (SetFeatureValues_init a feature)
        = SetFeatureValues_init b Feature_default \<and>
      storage (value_FeatureType a)
          (SetFeatureValues_range b (SetFeatureValues_range a feature))
        = storage (value_FeatureType a) Feature_default \<and>
      GetFeatureValues policy (value_FeatureType b)
          (SetFeatureValues_range b (SetFeatureValues_range a feature))
        = Inr (converted b) \<and>
      oneof_invariant (SetFeatureValues_range b (SetFeatureValues_range a feature)) \<and>
      SetFeatureValues_range b (SetFeatureValues_range a feature)
        = SetFeatureValues_range b Feature_default \<and>
      GetFeatures (SetFeatureValues_key b key (SetFeatureValues_key a key proto)) key
        = Some (SetFeatureValues b Feature_default) \<and>
      GetFeatures (SetFeatureValues_init_key b key (SetFeatureValues_init_key a key proto)) key
        = Some (SetFeatureValues_init b Feature_default) \<and>
      GetFeatures (SetFeatureValues_range_key b key (SetFeatureValues_range_key a key proto))
          key
        = Some (SetFeatureValues_range b Feature_default) \<and>
      GetFeatureValues_key policy (value_FeatureType b) key
          (SetFeatureValues_key b key (SetFeatureValues_key a key proto))
        = Inr (converted b) \<and>
      GetFeatureValues_key policy (value_FeatureType b) key
          (SetFeatureValues_init_key b key (SetFeatureValues_init_key a key proto))
        = Inr (converted b) \<and>
      GetFeatureValues_key policy (value_FeatureType b) key
          (SetFeatureValues_range_key b key (SetFeatureValues_range_key a key proto))
        = Inr (converted b))"
proof -
  have twice: "oneof_invariant (SetFeatureValues b Feature_default)"
    by (simp add: oneof_invariant_Set oneof_invariant_default)
  have by_key: "GetFeatures (SetFeatureValues_key b key (SetFeatureValues_key a key proto)) key
      = Some (SetFeatureValues b (SetFeatureValues a (found (GetFeatures proto key))))"
    by (simp add: GetFeatures_SetFeatureValues_key found_def)
  have read: "GetFeatureValues_key policy (value_FeatureType b) key
      (SetFeatureValues_key b key (SetFeatureValues_key a key proto)) = Inr (converted b)"
    by (simp add: GetFeatureValues_key_def Map_at_def by_key GetFeatureValues_SetFeatureValues)
  show ?thesis
    using oneof_invariant_populated [of feature]
    by (simp add: oneof_invariant_mutable oneof_invariant_Add oneof_invariant_Clear
        oneof_invariant_Append oneof_invariant_Set
        AppendFeatureValues_init_eq AppendFeatureValues_range_eq
        SetFeatureValues_init_eq SetFeatureValues_range_eq
        AppendFeatureValues_key_overloads SetFeatureValues_key_overloads
        entry_invariant_GetFeature_mutable entry_invariant_GetFeatureValues_mutable_key
        entry_invariant_AppendFeatureValues_key entry_invariant_SetFeatureValues_key
        list_invariant_AppendFeatureValues_Add
        SetFeatureValues_twice storage_SetFeatureValues_default
        GetFeatureValues_SetFeatureValues twice by_key read)
qed

theorem oneof_invariant_preserved_witness:
  "oneof_invariant
     \<lparr>kind_case = kFloatList, bytes_list = [], float_list = [Float32 (3 / 2)],
      int64_list = []\<rparr> \<and>
   oneof_invariant
     (SetFeatureValues (IntegralValues [1, 2, 3])
        \<lparr>kind_case = kFloatList, bytes_list = [], float_list = [Float32 (3 / 2)],
         int64_list = []\<rparr>) \<and>
   entry_invariant (GetFeatures (Example_proto \<lparr>features = Map.empty\<rparr>) ''tag'') \<and>
   entry_invariant
     (GetFeatures
        (SetFeatureValues_key (IntegralValues [1, 2, 3]) ''tag''
           (Example_proto \<lparr>features = Map.empty\<rparr>)) ''tag'') \<and>
   list_invariant
     (feature_lists \<lparr>context = Map.empty, feature_lists = Map.empty\<rparr> ''images'') \<and>
   list_invariant
     (feature_lists
        (AppendFeatureValues_Add (IntegralValues [1, 2, 3]) ''images''
           \<lparr>context = Map.empty, feature_lists = Map.empty\<rparr>)
        ''images'') \<and>
   value_FeatureType (FloatingValues [4]) \<noteq> value_FeatureType (IntegralValues [1, 2, 3]) \<and>
   storage float
     (SetFeatureValues_range (IntegralValues [1, 2, 3])
        (SetFeatureValues_range (FloatingValues [4])
           \<lparr>kind_case = kFloatList, bytes_list = [], float_list = [Float32 (3 / 2)],
            int64_list = []\<rparr>))
     = RepeatedField_float [] \<and>
   GetFeatureValues FailOnForeignKind protobuf_int64
     (SetFeatureValues_range (IntegralValues [1, 2, 3])
        (SetFeatureValues_range (FloatingValues [4])
           \<lparr>kind_case = kFloatList, bytes_list = [], float_list = [Float32 (3 / 2)],
            int64_list = []\<rparr>))
     = Inr (RepeatedField_int64 [1, 2, 3]) \<and>
   GetFeatureValues_key FailOnForeignKind protobuf_int64 ''tag''
     (SetFeatureValues_key (IntegralValues [1, 2, 3]) ''tag''
        (SetFeatureValues_key (FloatingValues [4]) ''tag''
           (Example_proto \<lparr>features = Map.empty\<rparr>)))
     = Inr (RepeatedField_int64 [1, 2, 3])"
proof -
  note T = oneof_invariant_preserved [where
      feature = "\<lparr>kind_case = kFloatList, bytes_list = [], float_list = [Float32 (3 / 2)],
        int64_list = []\<rparr>"
      and K = float and i = 0 and x = "Float32 0" and s = "[]"
      and c = "IntegralValues [1, 2, 3]"
      and proto = "Example_proto \<lparr>features = Map.empty\<rparr>"
      and key = "''tag''" and key' = "''tag''"
      and se = "\<lparr>context = Map.empty, feature_lists = Map.empty\<rparr>"
      and list_key = "''images''" and list_key' = "''images''"
      and a = "FloatingValues [4]" and b = "IntegralValues [1, 2, 3]"
      and policy = FailOnForeignKind]
  have h1: "oneof_invariant
     \<lparr>kind_case = kFloatList, bytes_list = [], float_list = [Float32 (3 / 2)],
      int64_list = []\<rparr>"
    by (simp add: oneof_invariant_def)
  have h2: "entry_invariant (GetFeatures (Example_proto \<lparr>features = Map.empty\<rparr>) ''tag'')"
    by (simp add: entry_invariant_def)
  have h3: "list_invariant
     (feature_lists \<lparr>context = Map.empty, feature_lists = Map.empty\<rparr> ''images'')"
    by (simp add: list_invariant_def)
  have h4: "value_FeatureType (FloatingValues [4]) \<noteq>
     value_FeatureType (IntegralValues [1, 2, 3])"
    by simp
  from T h4 have
    "storage (value_FeatureType (FloatingValues [4]))
       (SetFeatureValues_range (IntegralValues [1, 2, 3])
          (SetFeatureValues_range (FloatingValues [4])
             \<lparr>kind_case = kFloatList, bytes_list = [], float_list = [Float32 (3 / 2)],
              int64_list = []\<rparr>))
       = storage (value_FeatureType (FloatingValues [4])) Feature_default"
    and "GetFeatureValues FailOnForeignKind (value_FeatureType (IntegralValues [1, 2, 3]))
       (SetFeatureValues_range (IntegralValues [1, 2, 3])
          (SetFeatureValues_range (FloatingValues [4])
             \<lparr>kind_case = kFloatList, bytes_list = [], float_list = [Float32 (3 / 2)],
              int64_list = []\<rparr>))
       = Inr (converted (IntegralValues [1, 2, 3]))"
    and "GetFeatureValues_key FailOnForeignKind (value_FeatureType (IntegralValues [1, 2, 3]))
       ''tag''
       (SetFeatureValues_key (IntegralValues [1, 2, 3]) ''tag''
          (SetFeatureValues_key (FloatingValues [4]) ''tag''
             (Example_proto \<lparr>features = Map.empty\<rparr>)))
       = Inr (converted (IntegralValues [1, 2, 3]))"
    by blast+
  then have c4: "storage float
       (SetFeatureValues_range (IntegralValues [1, 2, 3])
          (SetFeatureValues_range (FloatingValues [4])
             \<lparr>kind_case = kFloatList, bytes_list = [], float_list = [Float32 (3 / 2)],
              int64_list = []\<rparr>))
       = RepeatedField_float []"
    and c5: "GetFeatureValues FailOnForeignKind protobuf_int64
       (SetFeatureValues_range (IntegralValues [1, 2, 3])
          (SetFeatureValues_range (FloatingValues [4])
             \<lparr>kind_case = kFloatList, bytes_list = [], float_list = [Float32 (3 / 2)],
              int64_list = []\<rparr>))
       = Inr (RepeatedField_int64 [1, 2, 3])"
    and c6: "GetFeatureValues_key FailOnForeignKind protobuf_int64 ''tag''
       (SetFeatureValues_key (IntegralValues [1, 2, 3]) ''tag''
          (SetFeatureValues_key (FloatingValues [4]) ''tag''
             (Example_proto \<lparr>features = Map.empty\<rparr>)))
       = Inr (RepeatedField_int64 [1, 2, 3])"
    by (simp_all add: Feature_default_def)
  from T h1 h2 h3 h4 c4 c5 c6 show ?thesis by blast
qed

section \<open>Looking a Feature up\<close>

text \<open>
  C3.  The read-only \<open>GetFeature\<close> fails with a LookupError when the key is absent
  and returns the Feature when it is present.  The mutable \<open>GetFeature\<close> returns a
  Feature in every case: the one stored under the key, or a default Feature it has
  just inserted there; the other keys are left alone.  After it the key is present, so
  \<open>HasFeature\<close> without a kind holds and the read-only \<open>GetFeature\<close> finds the
  Feature that was returned, with no value appended.
\<close>

theorem GetFeature_lookup:
  "(GetFeatures proto key = None \<longrightarrow> GetFeature key proto = Inl LookupError) \<and>
   (GetFeatures proto key = Some feature \<longrightarrow> GetFeature key proto = Inr feature) \<and>
   (GetFeatures proto key = None \<longrightarrow>
      fst (GetFeature_mutable key proto) = Feature_default) \<and>
   (GetFeatures proto key = Some feature \<longrightarrow>
      GetFeature_mutable key proto = (feature, proto)) \<and>
   (key' \<noteq> key \<longrightarrow>
      GetFeatures (snd (GetFeature_mutable key proto)) key' = GetFeatures proto key') \<and>
   GetFeature key (snd (GetFeature_mutable key proto))
     = Inr (fst (GetFeature_mutable key proto)) \<and>
   HasFeature None key (GetFeatures (snd (GetFeature_mutable key proto))) \<and>
   HasFeature_Example None key
     (\<lparr>features = GetFeatures (snd (GetFeature_mutable key proto))\<rparr>)"
  by (simp add: GetFeature_def Map_at_def GetFeatures_GetFeature_mutable HasFeature_Example_def)
    (auto simp: GetFeature_mutable_eq found_def fun_upd_idem put_Features_GetFeatures)

theorem GetFeature_lookup_witness:
  "GetFeatures (Example_proto \<lparr>features = Map.empty :: Features\<rparr>) ''tag'' = None \<and>
   GetFeature ''tag'' (Example_proto \<lparr>features = Map.empty :: Features\<rparr>)
     = Inl LookupError \<and>
   fst (GetFeature_mutable ''tag'' (Example_proto \<lparr>features = Map.empty :: Features\<rparr>))
     = Feature_default \<and>
   HasFeature None ''tag''
     (GetFeatures
        (snd (GetFeature_mutable ''tag''
           (Example_proto \<lparr>features = Map.empty :: Features\<rparr>)))) \<and>
   GetFeatures (Features_proto [''tag'' \<mapsto> Feature_default :: Feature]) ''tag''
     = Some Feature_default \<and>
   GetFeature ''tag'' (Features_proto [''tag'' \<mapsto> Feature_default :: Feature])
     = Inr Feature_default \<and>
   ''id'' \<noteq> ''tag'' \<and>
   GetFeatures
     (snd (GetFeature_mutable ''tag''
        (Example_proto \<lparr>features = Map.empty :: Features\<rparr>))) ''id'' = None"
  using GetFeature_lookup [of "Example_proto \<lparr>features = Map.empty :: Features\<rparr>"
      "''tag''" _ "''id''"]
    GetFeature_lookup [of "Features_proto [''tag'' \<mapsto> Feature_default :: Feature]"
      "''tag''" Feature_default]
  by simp

section \<open>Clearing one kind\<close>

text \<open>
  C5.  \<open>ClearFeatureValues\<close> for a kind leaves the discriminant of the Feature as it
  is, empties the storage of that kind, and leaves the storage of every other kind
  unchanged.
\<close>

theorem ClearFeatureValues_frame:
  "kind_case (ClearFeatureValues K feature) = kind_case feature \<and>
   storage K (ClearFeatureValues K feature) = storage K Feature_default \<and>
   (K' \<noteq> K \<longrightarrow> storage K' (ClearFeatureValues K feature) = storage K' feature)"
  by (cases K; cases K') (simp_all add: Feature_default_def)

theorem ClearFeatureValues_frame_witness:
  "float \<noteq> protobuf_int64 \<and>
   kind_case (ClearFeatureValues protobuf_int64
     \<lparr>kind_case = kFloatList, bytes_list = [], float_list = [Float32 4], int64_list = []\<rparr>)
     = kFloatList \<and>
   storage float (ClearFeatureValues protobuf_int64
     \<lparr>kind_case = kFloatList, bytes_list = [], float_list = [Float32 4], int64_list = []\<rparr>)
     = RepeatedField_float [Float32 4]"
  using ClearFeatureValues_frame [of protobuf_int64
      "\<lparr>kind_case = kFloatList, bytes_list = [], float_list = [Float32 4], int64_list = []\<rparr>"
      float]
  by simp

section \<open>Appending twice\<close>

text \<open>
  C6.  Appending a sequence and then a second sequence of the same kind leaves the
  Feature as one append of the first sequence followed by the second does, for each
  kind and each of the three \<open>AppendFeatureValues\<close>.
\<close>

theorem AppendFeatureValues_concat:
  "AppendFeatureValues (IntegralValues B) (AppendFeatureValues (IntegralValues A) feature)
     = AppendFeatureValues (IntegralValues (A @ B)) feature \<and>
   AppendFeatureValues (FloatingValues D) (AppendFeatureValues (FloatingValues C) feature)
     = AppendFeatureValues (FloatingValues (C @ D)) feature \<and>
   AppendFeatureValues (StringValues F) (AppendFeatureValues (StringValues E) feature)
     = AppendFeatureValues (StringValues (E @ F)) feature \<and>
   AppendFeatureValues_range (IntegralValues B)
       (AppendFeatureValues_range (IntegralValues A) feature)
     = AppendFeatureValues_range (IntegralValues (A @ B)) feature \<and>
   AppendFeatureValues_range (FloatingValues D)
       (AppendFeatureValues_range (FloatingValues C) feature)
     = AppendFeatureValues_range (FloatingValues (C @ D)) feature \<and>
   AppendFeatureValues_range (StringValues F)
       (AppendFeatureValues_range (StringValues E) feature)
     = AppendFeatureValues_range (StringValues (E @ F)) feature \<and>
   AppendFeatureValues_init (IntegralValues B)
       (AppendFeatureValues_init (IntegralValues A) feature)
     = AppendFeatureValues_init (IntegralValues (A @ B)) feature \<and>
   AppendFeatureValues_init (FloatingValues D)
       (AppendFeatureValues_init (FloatingValues C) feature)
     = AppendFeatureValues_init (FloatingValues (C @ D)) feature \<and>
   AppendFeatureValues_init (StringValues F)
       (AppendFeatureValues_init (StringValues E) feature)
     = AppendFeatureValues_init (StringValues (E @ F)) feature"
  by (simp add: AppendFeatureValues_range_eq AppendFeatureValues_init_eq
      AppendFeatureValues_stores GetFeatureValues_mutable_def)

section \<open>Existence of a Feature of a kind\<close>

text \<open>
  C7.  \<open>HasFeature\<close> with a kind holds exactly when the key is present and the
  discriminant of the Feature under it is that kind: it is false for a key that holds
  another kind and for a key that is absent.  Without a kind it holds exactly when the
  key is present.  On an Example both are the answers for its Features.
\<close>

theorem HasFeature_kind:
  "(HasFeature (Some K) key fs \<longleftrightarrow>
      (\<exists>feature. fs key = Some feature \<and> kind_case feature = KindCase_of K)) \<and>
   (fs key = Some feature \<and> kind_case feature \<noteq> KindCase_of K \<longrightarrow>
      \<not> HasFeature (Some K) key fs) \<and>
   (fs key = None \<longrightarrow> \<not> HasFeature (Some K) key fs) \<and>
   (HasFeature None key fs \<longleftrightarrow> fs key \<noteq> None) \<and>
   HasFeature_Example pack key example = HasFeature pack key (features example)"
  by (simp add: HasFeature_Example_def split: option.split)

theorem HasFeature_kind_witness:
  "[''tag'' \<mapsto> \<lparr>kind_case = kInt64List, bytes_list = [], float_list = [],
                  int64_list = [1]\<rparr>] ''tag''
     = Some \<lparr>kind_case = kInt64List, bytes_list = [], float_list = [], int64_list = [1]\<rparr> \<and>
   kInt64List \<noteq> KindCase_of float \<and>
   \<not> HasFeature (Some float) ''tag''
     [''tag'' \<mapsto> \<lparr>kind_case = kInt64List, bytes_list = [], float_list = [],
                    int64_list = [1]\<rparr>] \<and>
   HasFeature (Some protobuf_int64) ''tag''
     [''tag'' \<mapsto> \<lparr>kind_case = kInt64List, bytes_list = [], float_list = [],
                    int64_list = [1]\<rparr>] \<and>
   HasFeature None ''tag''
     [''tag'' \<mapsto> \<lparr>kind_case = kInt64List, bytes_list = [], float_list = [],
                    int64_list = [1]\<rparr>] \<and>
   (Map.empty :: Features) ''tag'' = None \<and>
   \<not> HasFeature (Some protobuf_int64) ''tag'' (Map.empty :: Features)"
  using HasFeature_kind [of float "''tag''"
      "[''tag'' \<mapsto> \<lparr>kind_case = kInt64List, bytes_list = [], float_list = [],
                     int64_list = [1]\<rparr>]"
      "\<lparr>kind_case = kInt64List, bytes_list = [], float_list = [], int64_list = [1]\<rparr>"]
    HasFeature_kind [of protobuf_int64 "''tag''" "Map.empty :: Features"]
  by simp

section \<open>Feature lists keep the order of the calls\<close>

text \<open>
  C9.  Each \<open>AppendFeatureValues\<close> into a Feature newly added to the feature list
  of a key puts that Feature behind the ones the list holds, so two calls leave the
  two Features in the order of the calls, and the read-only \<open>GetFeatureList\<close>
  returns them so.  With \<open>[4.0]\<close> and then \<open>[5.0, 3.0]\<close> under the key
  \<open>images\<close> of a SequenceExample without that key, the list has two Features, the
  first holding the floats \<open>[4.0]\<close> and the second \<open>[5.0, 3.0]\<close>.
\<close>

theorem GetFeatureList_order:
  "GetFeatureList key (AppendFeatureValues_Add c key se)
     = Inr (listed (feature_lists se key) @ [AppendFeatureValues_init c Feature_default]) \<and>
   GetFeatureList key (AppendFeatureValues_Add c' key (AppendFeatureValues_Add c key se))
     = Inr (listed (feature_lists se key) @
         [AppendFeatureValues_init c Feature_default,
          AppendFeatureValues_init c' Feature_default]) \<and>
   GetFeatureList ''images''
     (AppendFeatureValues_Add (FloatingValues [5, 3]) ''images''
        (AppendFeatureValues_Add (FloatingValues [4]) ''images''
           \<lparr>context = Map.empty, feature_lists = Map.empty\<rparr>))
     = Inr [\<lparr>kind_case = kFloatList, bytes_list = [], float_list = [Float32 4],
             int64_list = []\<rparr>,
            \<lparr>kind_case = kFloatList, bytes_list = [], float_list = [Float32 5, Float32 3],
             int64_list = []\<rparr>]"
  by (simp add: GetFeatureList_def feature_lists_AppendFeatureValues_Add listed_def
      AppendFeatureValues_init_eq AppendFeatureValues_stores GetFeatureValues_mutable_def
      Feature_default_def float_of_real_examples)

section \<open>Appending no value\<close>

text \<open>
  C10.  \<open>AppendFeatureValues\<close> with a source that has no element still takes the
  mutable typed view of the kind its value type resolves to, and does nothing else.
  On a Feature whose discriminant is not that kind the result has that kind and three
  empty lists, and so differs from a Feature that held another kind.  By key, the
  entry is created when the key is absent, and the key is present afterwards; the
  mutable \<open>GetFeatureValues\<close> by key leaves the key present as well.
\<close>

theorem AppendFeatureValues_empty_source:
  "AppendFeatureValues (empty_source K) feature = GetFeatureValues_mutable K feature \<and>
   AppendFeatureValues_init (empty_source K) feature = GetFeatureValues_mutable K feature \<and>
   AppendFeatureValues_range (empty_source K) feature = GetFeatureValues_mutable K feature \<and>
   (kind_case feature \<noteq> KindCase_of K \<longrightarrow>
      AppendFeatureValues (empty_source K) feature =
        \<lparr>kind_case = KindCase_of K, bytes_list = [], float_list = [], int64_list = []\<rparr>) \<and>
   (kind_case feature \<noteq> KindCase_of K \<longrightarrow>
      AppendFeatureValues (empty_source K) feature \<noteq> feature) \<and>
   (GetFeatures proto key = None \<longrightarrow>
      GetFeatures (AppendFeatureValues_key (empty_source K) key proto) key =
        Some \<lparr>kind_case = KindCase_of K, bytes_list = [], float_list = [],
              int64_list = []\<rparr>) \<and>
   HasFeature None key (GetFeatures (AppendFeatureValues_key (empty_source K) key proto)) \<and>
   HasFeature None key (GetFeatures (AppendFeatureValues_init_key (empty_source K) key proto)) \<and>
   HasFeature None key (GetFeatures (AppendFeatureValues_range_key (empty_source K) key proto)) \<and>
   HasFeature None key (GetFeatures (GetFeatureValues_mutable_key K key proto))"
proof -
  have e: "AppendFeatureValues (empty_source K) g = GetFeatureValues_mutable K g" for g
    by (cases K) (simp_all add: Reserve_def)
  have d: "kind_case feature \<noteq> KindCase_of K \<Longrightarrow> GetFeatureValues_mutable K feature \<noteq> feature"
    by (auto simp: GetFeatureValues_mutable_def)
  show ?thesis
    using d
    by (simp add: AppendFeatureValues_init_eq AppendFeatureValues_range_eq e
        AppendFeatureValues_key_overloads GetFeatures_AppendFeatureValues_key
        GetFeatures_GetFeatureValues_mutable_key)
      (auto simp: GetFeatureValues_mutable_def found_def Feature_default_def Reserve_def;
        cases K; simp add: Reserve_def GetFeatureValues_mutable_def)
qed

theorem AppendFeatureValues_empty_source_witness:
  "kind_case \<lparr>kind_case = kFloatList, bytes_list = [], float_list = [Float32 4],
     int64_list = []\<rparr> \<noteq> KindCase_of protobuf_int64 \<and>
   AppendFeatureValues (IntegralValues [])
     \<lparr>kind_case = kFloatList, bytes_list = [], float_list = [Float32 4], int64_list = []\<rparr>
     = \<lparr>kind_case = kInt64List, bytes_list = [], float_list = [], int64_list = []\<rparr> \<and>
   GetFeatures (Example_proto \<lparr>features = Map.empty :: Features\<rparr>) ''tag'' = None \<and>
   GetFeatures
     (AppendFeatureValues_key (IntegralValues []) ''tag''
        (Example_proto \<lparr>features = Map.empty :: Features\<rparr>)) ''tag''
     = Some \<lparr>kind_case = kInt64List, bytes_list = [], float_list = [], int64_list = []\<rparr>"
  using AppendFeatureValues_empty_source [of protobuf_int64
      "\<lparr>kind_case = kFloatList, bytes_list = [], float_list = [Float32 4], int64_list = []\<rparr>"
      "Example_proto \<lparr>features = Map.empty :: Features\<rparr>" "''tag''"]
  by (simp add: Reserve_def GetFeatureValues_mutable_def)

section \<open>The type trait resolver\<close>

lemma is_integral_not_floating: "is_integral t \<Longrightarrow> \<not> is_floating_point t"
  by (auto simp: is_integral_def is_floating_point_def)

lemma integral_not_string: "is_integral t \<Longrightarrow> \<not> is_string t"
proof
  assume i: "is_integral t" and s: "is_string t"
  show False
    using i s unfolding is_integral_def
    by (induction t rule: decay.induct) auto
qed

lemma floating_not_string: "is_floating_point t \<Longrightarrow> \<not> is_string t"
proof
  assume i: "is_floating_point t" and s: "is_string t"
  show False
    using i s unfolding is_floating_point_def
    by (induction t rule: decay.induct) auto
qed

lemma string_like_is_string: "string_like t \<Longrightarrow> is_string t"
  by (auto simp: string_like_def)

lemma string_like_not_arith:
  "string_like t \<Longrightarrow> \<not> is_integral t \<and> \<not> is_floating_point t"
  by (auto simp: string_like_def is_integral_def is_floating_point_def)

text \<open>
  C8.  The resolver maps every integral value type to \<open>protobuf_int64\<close>, every
  floating-point value type to \<open>float\<close>, and every string-like value type
  (\<open>std::string\<close>, \<open>tstring\<close>, \<open>StringPiece\<close>, \<open>char*\<close>, \<open>const char*\<close> and
  the character arrays that decay to them) to \<open>std::string\<close>.
\<close>

theorem FeatureTrait_resolves:
  "(is_integral t \<longrightarrow> FeatureTrait t = Some protobuf_int64) \<and>
   (is_floating_point t \<longrightarrow> FeatureTrait t = Some float) \<and>
   (string_like t \<longrightarrow> FeatureTrait t = Some std_string)"
  using is_integral_not_floating [of t] integral_not_string [of t]
    floating_not_string [of t] string_like_is_string [of t]
    string_like_not_arith [of t]
  by (auto simp: FeatureTrait_def enabled_specializations_def)

theorem FeatureTrait_resolves_witness:
  "is_integral T_unsigned_int \<and> FeatureTrait T_unsigned_int = Some protobuf_int64 \<and>
   is_floating_point T_double \<and> FeatureTrait T_double = Some float \<and>
   string_like (T_array (T_const T_char) 6) \<and>
   FeatureTrait (T_array (T_const T_char) 6) = Some std_string \<and>
   string_like T_StringPiece \<and> FeatureTrait T_StringPiece = Some std_string"
  using FeatureTrait_resolves [of T_unsigned_int] FeatureTrait_resolves [of T_double]
    FeatureTrait_resolves [of "T_array (T_const T_char) 6"]
    FeatureTrait_resolves [of T_StringPiece]
  by (simp add: is_integral_def is_floating_point_def string_like_def)

end
